theory Spec2Isabelle
  imports Complex_Main "HOL-Library.AList" "HOL-Library.Option_ord"
begin

section \<open>Podcast Admin API: data model\<close>

text \<open>
  The development follows \<^verbatim>\<open>src/api_server.py\<close>. Python dictionaries that the
  program iterates over or deletes from (the Task Registry \<^verbatim>\<open>background_tasks\<close>) are
  association lists in insertion order; a dictionary with a fixed set of keys (a Task
  Record, a Status Record, an episode) is a record. A \<^verbatim>\<open>datetime\<close> is the number of
  microseconds on its time line, so that \<^verbatim>\<open>(a - b).total_seconds() > 3600\<close> is
  \<open>a - b > 3600000000\<close>; \<^verbatim>\<open>isoformat\<close> followed by \<^verbatim>\<open>fromisoformat\<close> is the identity
  and is not modelled.
\<close>

type_synonym datetime = int

definition seconds :: "int \<Rightarrow> int" where
  "seconds n = n * 1000000"

text \<open>
  A Task Record, as \<^verbatim>\<open>start_transcription\<close> creates it (the only place where one is
  created): all five keys are present, so the defaults of
  \<^verbatim>\<open>task_data.get('created_at', '2000-01-01')\<close> and \<^verbatim>\<open>task_data.get('status')\<close> are
  never taken.
\<close>

record task_record =
  t_type :: string
  t_status :: string
  t_message :: string
  t_episode_title :: string
  t_created_at :: datetime

type_synonym registry = "(string \<times> task_record) list"

subsection \<open>The Task Registry sweep\<close>

text \<open>
  \<^verbatim>\<open>cleanup_old_tasks\<close>: the first loop collects the ids to remove, the second deletes
  them.
\<close>

fun tasks_to_remove :: "datetime \<Rightarrow> registry \<Rightarrow> string list" where
  "tasks_to_remove current_time [] = []"
| "tasks_to_remove current_time ((task_id, task_data) # items) =
     (if t_status task_data \<in> set [''completed'', ''error'']
      then (if current_time - t_created_at task_data > seconds 3600
            then task_id # tasks_to_remove current_time items
            else tasks_to_remove current_time items)
      else tasks_to_remove current_time items)"

fun del_all :: "string list \<Rightarrow> registry \<Rightarrow> registry" where
  "del_all [] background_tasks = background_tasks"
| "del_all (task_id # ids) background_tasks = del_all ids (AList.delete task_id background_tasks)"

definition cleanup_old_tasks :: "datetime \<Rightarrow> registry \<Rightarrow> registry" where
  "cleanup_old_tasks current_time background_tasks =
     del_all (tasks_to_remove current_time background_tasks) background_tasks"

text \<open>
  The specification's words: a record is swept when its status is terminal and its
  \<^verbatim>\<open>created_at\<close> is more than one hour before the current time.
\<close>

definition terminal_status :: "string \<Rightarrow> bool" where
  "terminal_status s = (s = ''completed'' \<or> s = ''error'')"

definition swept :: "datetime \<Rightarrow> task_record \<Rightarrow> bool" where
  "swept now t = (terminal_status (t_status t) \<and> t_created_at t < now - seconds 3600)"

subsection \<open>Exceptions and strings\<close>

text \<open>
  Every \<^verbatim>\<open>raise\<close> of the source is a value. \<^verbatim>\<open>HTTPException\<close> carries the status code
  and the detail of the response; the other constructors carry the message that
  \<^verbatim>\<open>str(e)\<close> returns, except \<^verbatim>\<open>KeyError\<close>, which carries the key.
\<close>

datatype exn =
    TypeError string
  | KeyError string
  | ValueError string
  | RuntimeError string
  | OverflowError string
  | JSONDecodeError string
  | OSError string
  | HTTPException nat string

fun str_exn :: "exn \<Rightarrow> string" where
  "str_exn (KeyError k) = [CHR 0x27] @ k @ [CHR 0x27]"
| "str_exn (TypeError m) = m"
| "str_exn (ValueError m) = m"
| "str_exn (RuntimeError m) = m"
| "str_exn (OverflowError m) = m"
| "str_exn (JSONDecodeError m) = m"
| "str_exn (OSError m) = m"
| "str_exn (HTTPException c m) = m"

text \<open>
  A key of a parsed document: absent, present with the value \<^verbatim>\<open>None\<close>, or present
  with a value.
\<close>

datatype 'a field = Missing | Null | Present 'a

text \<open>\<^verbatim>\<open>s.startswith(p)\<close>.\<close>

definition startswith :: "string \<Rightarrow> string \<Rightarrow> bool" where
  "startswith s p = (take (length p) s = p)"

text \<open>
  \<^verbatim>\<open>str.strip()\<close>. A \<^typ>\<open>char\<close> is a code point below 256; these are the ones
  \<^verbatim>\<open>str.isspace\<close> accepts there.
\<close>

definition isspace :: "char \<Rightarrow> bool" where
  "isspace c = (of_char c \<in> set [9, 10, 11, 12, 13, 28, 29, 30, 31, 32, 133, 160 :: nat])"

definition strip :: "string \<Rightarrow> string" where
  "strip s = rev (dropWhile isspace (rev (dropWhile isspace s)))"

text \<open>\<^verbatim>\<open>str(n)\<close> and the format \<^verbatim>\<open>{n:0wd}\<close> of an integer.\<close>

fun digits :: "nat \<Rightarrow> string" where
  "digits n = (if n < 10 then [char_of (48 + n)]
               else digits (n div 10) @ [char_of (48 + n mod 10)])"

declare digits.simps [simp del]

definition str_int :: "int \<Rightarrow> string" where
  "str_int n = (if n < 0 then CHR ''-'' # digits (nat (- n)) else digits (nat n))"

definition zfill :: "nat \<Rightarrow> string \<Rightarrow> string" where
  "zfill w s = replicate (w - length s) CHR ''0'' @ s"

definition format_0d :: "nat \<Rightarrow> int \<Rightarrow> string" where
  "format_0d w n = (if n < 0 then CHR ''-'' # zfill (w - 1) (digits (nat (- n)))
                    else zfill w (digits (nat n)))"

subsection \<open>The Status Store\<close>

text \<open>
  A Status Record is one of the two dictionaries \<^verbatim>\<open>transcribe_episode\<close> writes; the
  keys of the other shape are \<open>None\<close>.
\<close>

record status_record =
  sr_status :: string
  sr_transcript_path :: "string option"
  sr_completed_at :: "datetime option"
  sr_error :: "string option"
  sr_failed_at :: "datetime option"
  sr_podcast_name :: string
  sr_episode_title :: string

type_synonym status_map = "string \<rightharpoonup> status_record"

text \<open>
  The file \<^verbatim>\<open>status.json\<close>, by what \<^verbatim>\<open>json.load\<close> makes of its text: the file is
  absent; or it holds the complete JSON text of a mapping; or it holds a text that is not
  a JSON document. \<^verbatim>\<open>open(STATUS_FILE, 'w')\<close> empties the file before \<^verbatim>\<open>json.dump\<close>
  writes into it, and the text of a JSON object ends with its closing brace, so the file
  holds no document from the \<^verbatim>\<open>open\<close> until the last write.
\<close>

datatype status_file = NoFile | Unparseable | Document status_map

text \<open>\<^verbatim>\<open>load_status\<close> catches \<^verbatim>\<open>FileNotFoundError\<close> only.\<close>

definition load_status :: "status_file \<Rightarrow> exn + status_map" where
  "load_status f =
     (case f of
        NoFile \<Rightarrow> Inr Map.empty
      | Unparseable \<Rightarrow> Inl (JSONDecodeError ''Expecting value'')
      | Document status \<Rightarrow> Inr status)"

text \<open>
  \<^verbatim>\<open>save_status\<close>, as the states the file goes through: after the \<^verbatim>\<open>open\<close>, and
  after \<^verbatim>\<open>json.dump\<close> and the close. A save that runs to its end leaves the last one.
\<close>

definition save_status_steps :: "status_file \<Rightarrow> status_map \<Rightarrow> status_file list" where
  "save_status_steps f status = [Unparseable, Document status]"

definition save_status :: "status_file \<Rightarrow> status_map \<Rightarrow> status_file" where
  "save_status f status = last (save_status_steps f status)"

subsection \<open>Feeds and episodes\<close>

text \<open>
  What \<^verbatim>\<open>feedparser.parse\<close> returns, with the fields the program reads. The parsed
  publication date is a \<^verbatim>\<open>struct_time\<close> in UTC, here the \<^typ>\<open>datetime\<close> that
  \<^verbatim>\<open>datetime(*entry.published_parsed[:6], tzinfo=timezone.utc)\<close> builds from it.
\<close>

record enclosure =
  enc_type :: string
  enc_href :: string

record entry =
  e_id :: "string option"
  e_title :: "string option"
  e_published :: "string option"
  e_published_parsed :: "datetime field"
  e_enclosures :: "enclosure list"

record feed_data =
  bozo :: bool
  entries :: "entry list"

record feed =
  f_name :: string
  f_rss :: string

text \<open>
  The collaborators outside the repository: \<^verbatim>\<open>hashlib.md5(s.encode()).hexdigest()\<close>,
  \<^verbatim>\<open>feedparser.parse\<close>, and the list \<^verbatim>\<open>load_feeds\<close> reads from \<^verbatim>\<open>feeds.json\<close>
  (empty when the file is absent).
\<close>

record externals =
  md5_hexdigest :: "string \<Rightarrow> string"
  feedparser_parse :: "string \<Rightarrow> feed_data"
  feeds_json :: "feed list"

record episode =
  ep_id :: string
  ep_podcast_name :: string
  ep_title :: string
  ep_pub_date :: string
  ep_pub_date_parsed :: "datetime option"
  ep_audio_url :: string
  ep_status :: string

text \<open>The enclosure loop: the \<^verbatim>\<open>href\<close> of the first enclosure of an audio type.\<close>

fun find_audio :: "enclosure list \<Rightarrow> string option" where
  "find_audio [] = None"
| "find_audio (enclosure # rest) =
     (if startswith (enc_type enclosure) ''audio/'' then Some (enc_href enclosure)
      else find_audio rest)"

text \<open>\<^verbatim>\<open>not audio_url\<close>: no audio enclosure, or one with an empty \<^verbatim>\<open>href\<close>.\<close>

definition no_audio :: "string option \<Rightarrow> bool" where
  "no_audio audio_url = (audio_url = None \<or> audio_url = Some [])"

definition entry_title :: "entry \<Rightarrow> string" where
  "entry_title entry = (case e_title entry of Some t \<Rightarrow> t | None \<Rightarrow> ''Unknown Title'')"

text \<open>The episode id, as \<^verbatim>\<open>get_episodes\<close> computes it (lines 351 to 364).\<close>

definition episode_id_get_episodes :: "externals \<Rightarrow> feed \<Rightarrow> entry \<Rightarrow> string" where
  "episode_id_get_episodes ext feed entry =
     (let base_id = (case e_id entry of Some i \<Rightarrow> i | None \<Rightarrow> []);
          title = entry_title entry;
          episode_base = (if base_id \<noteq> [] then base_id
                          else take 12 (md5_hexdigest ext title));
          feed_hash = take 8 (md5_hexdigest ext (f_rss feed))
      in feed_hash @ ''_'' @ episode_base)"

text \<open>The episode id, as \<^verbatim>\<open>start_transcription\<close> computes it (lines 435 to 448).\<close>

definition episode_id_start_transcription :: "externals \<Rightarrow> feed \<Rightarrow> entry \<Rightarrow> string" where
  "episode_id_start_transcription ext feed entry =
     (let base_id = (case e_id entry of Some i \<Rightarrow> i | None \<Rightarrow> []);
          title = entry_title entry;
          episode_base = (if base_id \<noteq> [] then base_id
                          else take 12 (md5_hexdigest ext title));
          feed_hash = take 8 (md5_hexdigest ext (f_rss feed))
      in feed_hash @ ''_'' @ episode_base)"

text \<open>
  The specification's derivation: \<open>feed_hash\<close>, an underscore, \<open>episode_base\<close>.
\<close>

definition feed_hash_spec :: "(string \<Rightarrow> string) \<Rightarrow> string \<Rightarrow> string" where
  "feed_hash_spec md5 feed_url = take 8 (md5 feed_url)"

fun episode_base_spec :: "(string \<Rightarrow> string) \<Rightarrow> string option \<Rightarrow> string option \<Rightarrow> string" where
  "episode_base_spec md5 (Some (c # cs)) title = c # cs"
| "episode_base_spec md5 ident (Some title) = take 12 (md5 title)"
| "episode_base_spec md5 ident None = take 12 (md5 ''Unknown Title'')"

definition derive_id_spec :: "(string \<Rightarrow> string) \<Rightarrow> string \<Rightarrow> entry \<Rightarrow> string" where
  "derive_id_spec md5 feed_url entry =
     feed_hash_spec md5 feed_url @ ''_'' @ episode_base_spec md5 (e_id entry) (e_title entry)"

text \<open>
  \<^verbatim>\<open>sorted(xs, key=..., reverse=True)\<close> and \<^verbatim>\<open>xs.sort(key=..., reverse=True)\<close>. A key
  is \<open>None\<close> when the Python key is \<^verbatim>\<open>None\<close>, which \<^verbatim>\<open><\<close> does not compare with anything:
  a list of two or more elements has every key compared at least once, so the sort raises
  \<^verbatim>\<open>TypeError\<close> when one of them is \<^verbatim>\<open>None\<close>; a shorter list is returned as it is, with
  no comparison. The sort is stable, also with \<^verbatim>\<open>reverse=True\<close>.
\<close>

definition py_sorted_reverse :: "('a \<Rightarrow> 'k::linorder option) \<Rightarrow> 'a list \<Rightarrow> exn + 'a list" where
  "py_sorted_reverse key xs =
     (if length xs < 2 then Inr xs
      else if list_ex (\<lambda>x. key x = None) xs
      then Inl (TypeError ''< not supported between instances of NoneType and another type'')
      else Inr (rev (sort_key (\<lambda>x. the (key x)) (rev xs))))"

text \<open>
  The key of the per-feed sort, \<^verbatim>\<open>x.get('published_parsed', (0,0,0,0,0,0,0,0,0))\<close>: the
  tuple of zeros (here \<open>Some None\<close>) is below every \<^verbatim>\<open>struct_time\<close>.
\<close>

definition published_key :: "entry \<Rightarrow> datetime option option" where
  "published_key x =
     (case e_published_parsed x of
        Missing \<Rightarrow> Some None
      | Null \<Rightarrow> None
      | Present t \<Rightarrow> Some (Some t))"

text \<open>
  The key of the final sort, \<^verbatim>\<open>x.get('pub_date_parsed', '')\<close>: every episode has the key
  \<^verbatim>\<open>pub_date_parsed\<close>, so the default is never taken and the key is the ISO text or
  \<^verbatim>\<open>None\<close>. The texts all have the form \<^verbatim>\<open>YYYY-MM-DDTHH:MM:SS+00:00\<close> and compare as
  their datetimes do.
\<close>

definition pub_date_key :: "episode \<Rightarrow> datetime option" where
  "pub_date_key x = ep_pub_date_parsed x"

text \<open>\<^verbatim>\<open>xs[:limit]\<close>.\<close>

definition slice_to :: "int \<Rightarrow> 'a list \<Rightarrow> 'a list" where
  "slice_to limit xs =
     (if 0 \<le> limit then take (nat limit) xs else take (nat (int (length xs) + limit)) xs)"

text \<open>
  \<^verbatim>\<open>datetime.now(timezone.utc) - timedelta(days=days)\<close>. A datetime counts from
  0001-01-01T00:00:00 and ends with the year 9999.
\<close>

definition datetime_max :: datetime where
  "datetime_max = 3652059 * 86400000000 - 1"

definition cutoff_date :: "datetime \<Rightarrow> int \<Rightarrow> exn + datetime" where
  "cutoff_date now_utc days =
     (if 999999999 < \<bar>days\<bar> then Inl (OverflowError ''days must have magnitude <= 999999999'')
      else let c = now_utc - days * 86400000000
           in if c < 0 \<or> datetime_max < c then Inl (OverflowError ''date value out of range'')
              else Inr c)"

definition entry_pub_date_parsed :: "entry \<Rightarrow> datetime option" where
  "entry_pub_date_parsed entry =
     (case e_published_parsed entry of Present t \<Rightarrow> Some t | _ \<Rightarrow> None)"

definition episode_of :: "externals \<Rightarrow> status_map \<Rightarrow> feed \<Rightarrow> entry \<Rightarrow> string \<Rightarrow> episode" where
  "episode_of ext status feed entry audio_url =
     (let episode_id = episode_id_get_episodes ext feed entry
      in \<lparr>ep_id = episode_id,
          ep_podcast_name = f_name feed,
          ep_title = entry_title entry,
          ep_pub_date = (case e_published entry of Some p \<Rightarrow> p | None \<Rightarrow> []),
          ep_pub_date_parsed = entry_pub_date_parsed entry,
          ep_audio_url = audio_url,
          ep_status = (case status episode_id of
                         None \<Rightarrow> ''pending''
                       | Some r \<Rightarrow> sr_status r)\<rparr>)"

text \<open>
  The loop over the sorted entries of one feed: \<^verbatim>\<open>continue\<close> on an entry without audio,
  \<^verbatim>\<open>break\<close> on the first entry older than the cutoff. The result is what the loop appends
  to \<^verbatim>\<open>all_episodes\<close>.
\<close>

fun scan_entries :: "externals \<Rightarrow> status_map \<Rightarrow> datetime \<Rightarrow> feed \<Rightarrow> entry list \<Rightarrow> episode list" where
  "scan_entries ext status cutoff feed [] = []"
| "scan_entries ext status cutoff feed (entry # rest) =
     (let audio_url = find_audio (e_enclosures entry)
      in if no_audio audio_url then scan_entries ext status cutoff feed rest
         else (case entry_pub_date_parsed entry of
                 Some pub_date_parsed \<Rightarrow>
                   if pub_date_parsed < cutoff then []
                   else episode_of ext status feed entry (the audio_url)
                          # scan_entries ext status cutoff feed rest
               | None \<Rightarrow>
                   episode_of ext status feed entry (the audio_url)
                     # scan_entries ext status cutoff feed rest))"

text \<open>
  The body of the loop over the feeds: a feed without entries is skipped; an exception of
  the \<^verbatim>\<open>try\<close> block (here the \<^verbatim>\<open>TypeError\<close> of the sort) is printed, and the loop goes on
  with the next feed.
\<close>

definition feed_episodes :: "externals \<Rightarrow> status_map \<Rightarrow> datetime \<Rightarrow> feed \<Rightarrow> episode list" where
  "feed_episodes ext status cutoff feed =
     (let feed_data = feedparser_parse ext (f_rss feed)
      in if entries feed_data = [] then []
         else (case py_sorted_reverse published_key (entries feed_data) of
                 Inl e \<Rightarrow> []
               | Inr sorted_entries \<Rightarrow> scan_entries ext status cutoff feed sorted_entries))"

definition all_episodes :: "externals \<Rightarrow> status_map \<Rightarrow> datetime \<Rightarrow> episode list" where
  "all_episodes ext status cutoff =
     concat (map (feed_episodes ext status cutoff) (feeds_json ext))"

text \<open>
  \<^verbatim>\<open>GET /episodes\<close>. The handler sweeps the Task Registry first; it reads the clock
  twice, \<^verbatim>\<open>datetime.now()\<close> for the sweep and \<^verbatim>\<open>datetime.now(timezone.utc)\<close> for the
  cutoff. An exception outside the loop over the feeds leaves the handler (the response
  is then an error of the server). The result is the new registry and the response.
\<close>

definition get_episodes ::
  "externals \<Rightarrow> datetime \<Rightarrow> datetime \<Rightarrow> registry \<Rightarrow> status_file \<Rightarrow> int \<Rightarrow> int
     \<Rightarrow> registry \<times> (exn + episode list)" where
  "get_episodes ext now_local now_utc background_tasks file limit days =
     (let swept_tasks = cleanup_old_tasks now_local background_tasks
      in (swept_tasks,
          (case load_status file of
             Inl e \<Rightarrow> Inl e
           | Inr status \<Rightarrow>
               (case cutoff_date now_utc days of
                  Inl e \<Rightarrow> Inl e
                | Inr cutoff \<Rightarrow>
                    (case py_sorted_reverse pub_date_key (all_episodes ext status cutoff) of
                       Inl e \<Rightarrow> Inl e
                     | Inr sorted_episodes \<Rightarrow> Inr (slice_to limit sorted_episodes))))))"




subsection \<open>The transcript normalizer\<close>

text \<open>
  The JSON a poll of the provider returns, with the keys \<^verbatim>\<open>transcribe_with_gladia\<close>
  reads. A start time is a JSON number, here a rational: \<^verbatim>\<open>//\<close>, \<^verbatim>\<open>%\<close> and \<^verbatim>\<open>*\<close> are
  exact, the rounding of floating-point numbers is not modelled. A speaker is the text
  that the f-string prints for it.
\<close>

record utterance =
  u_speaker :: "string option"
  u_text :: "string option"
  u_start :: "rat option"

record segment =
  s_speaker :: "string option"
  s_text :: "string option"

text \<open>What the function returns: a string, \<^verbatim>\<open>None\<close>, or another JSON value.\<close>

datatype pyval = PyStr string | PyNone | PyOther

text \<open>
  \<^verbatim>\<open>data["result"]["transcription"]\<close>: a dictionary with its keys \<^verbatim>\<open>utterances\<close>,
  \<^verbatim>\<open>full_transcript\<close> and \<^verbatim>\<open>segments\<close>, or a value that is not a dictionary. At the
  root of the result the source looks for \<^verbatim>\<open>transcription\<close>, \<^verbatim>\<open>utterances\<close> and
  \<^verbatim>\<open>segments\<close>; it never reads a \<^verbatim>\<open>full_transcript\<close> there.
\<close>

datatype transcription =
    TranscriptionDict "utterance list option" "string option" "segment list option"
  | TranscriptionOther pyval

record result =
  r_transcription :: "transcription option"
  r_utterances :: "utterance list option"
  r_full_transcript :: "string option"
  r_segments :: "segment list option"

record response =
  d_status :: "string option"
  d_result :: "result field"
  d_error_code :: "string option"

text \<open>One pass through the body of a loop: it returns, raises, or goes on.\<close>

datatype 'a outcome = Return 'a | Raise exn | Continue

text \<open>\<^verbatim>\<open>int(x)\<close>, \<^verbatim>\<open>x // y\<close> and \<^verbatim>\<open>x % y\<close> (for a positive \<open>y\<close>).\<close>

definition py_int :: "rat \<Rightarrow> int" where
  "py_int x = (if 0 \<le> x then \<lfloor>x\<rfloor> else \<lceil>x\<rceil>)"

definition py_floordiv :: "rat \<Rightarrow> rat \<Rightarrow> rat" where
  "py_floordiv x y = of_int \<lfloor>x / y\<rfloor>"

definition py_mod :: "rat \<Rightarrow> rat \<Rightarrow> rat" where
  "py_mod x y = x - y * of_int \<lfloor>x / y\<rfloor>"

definition timestamp :: "rat \<Rightarrow> string" where
  "timestamp start_time =
     (let minutes = py_int (py_floordiv start_time 60);
          secs = py_int (py_mod start_time 60);
          milliseconds = py_int (py_mod start_time 1 * 1000)
      in format_0d 2 minutes @ '':'' @ format_0d 2 secs @ ''.'' @ format_0d 3 milliseconds)"

definition newline :: char where
  "newline = CHR 0x0A"

text \<open>The two loops that fill \<^verbatim>\<open>lines\<close>.\<close>

fun utterance_lines :: "utterance list \<Rightarrow> string list" where
  "utterance_lines [] = []"
| "utterance_lines (utterance # rest) =
     (let speaker = (case u_speaker utterance of Some s \<Rightarrow> s | None \<Rightarrow> ''Unknown'');
          text = (case u_text utterance of Some s \<Rightarrow> s | None \<Rightarrow> []);
          start_time = (case u_start utterance of Some s \<Rightarrow> s | None \<Rightarrow> 0)
      in if strip text \<noteq> []
         then (''Speaker '' @ speaker @ '' | '' @ timestamp start_time @ [newline] @ text
                 @ [newline, newline]) # utterance_lines rest
         else utterance_lines rest)"

fun segment_lines :: "segment list \<Rightarrow> string list" where
  "segment_lines [] = []"
| "segment_lines (segment # rest) =
     (let speaker = (case s_speaker segment of Some s \<Rightarrow> s | None \<Rightarrow> ''Unknown'');
          text = (case s_text segment of Some s \<Rightarrow> s | None \<Rightarrow> [])
      in if strip text \<noteq> []
         then (''['' @ speaker @ '']: '' @ text @ [newline]) # segment_lines rest
         else segment_lines rest)"

text \<open>
  The branch \<^verbatim>\<open>status == "done"\<close> (lines 145 to 210). The chain of tests on a
  transcription dictionary has no final \<^verbatim>\<open>else\<close>: with none of the three keys the branch
  ends without a \<^verbatim>\<open>return\<close> or a \<^verbatim>\<open>raise\<close>, and the loop goes on.
\<close>

definition done_branch :: "response \<Rightarrow> pyval outcome" where
  "done_branch data =
     (case d_result data of
        Missing \<Rightarrow> Raise (KeyError ''result'')
      | Null \<Rightarrow> Raise (RuntimeError ''No transcription data found in result.'')
      | Present result \<Rightarrow>
          (case r_transcription result of
             Some (TranscriptionDict utterances full_transcript segments) \<Rightarrow>
               (case utterances of
                  Some us \<Rightarrow> Return (PyStr (strip (concat (utterance_lines us))))
                | None \<Rightarrow>
                    (case full_transcript of
                       Some text \<Rightarrow> Return (PyStr text)
                     | None \<Rightarrow>
                         (case segments of
                            Some ss \<Rightarrow> Return (PyStr (strip (concat (segment_lines ss))))
                          | None \<Rightarrow> Continue)))
           | Some (TranscriptionOther v) \<Rightarrow> Return v
           | None \<Rightarrow>
               (case r_utterances result of
                  Some us \<Rightarrow> Return (PyStr (strip (concat (utterance_lines us))))
                | None \<Rightarrow>
                    (case r_segments result of
                       Some ss \<Rightarrow> Return (PyStr (strip (concat (segment_lines ss))))
                     | None \<Rightarrow>
                         Raise (RuntimeError ''No transcription data found in result.'')))))"

text \<open>The tests on the status of one answer (lines 145 and 211 to 213).\<close>

definition poll_step :: "response \<Rightarrow> string \<Rightarrow> pyval outcome" where
  "poll_step data status =
     (if status = ''done'' then done_branch data
      else if status = ''error''
      then Raise (RuntimeError (''Transcription failed: ''
             @ (case d_error_code data of Some c \<Rightarrow> c | None \<Rightarrow> ''Unknown error'')))
      else Continue)"

text \<open>
  \<^verbatim>\<open>background_tasks[task_id][key] = value\<close>: a \<^verbatim>\<open>KeyError\<close> when the registry has no
  such task.
\<close>

definition update_task :: "registry \<Rightarrow> string \<Rightarrow> (task_record \<Rightarrow> task_record) \<Rightarrow> exn + registry" where
  "update_task background_tasks task_id f =
     (case map_of background_tasks task_id of
        None \<Rightarrow> Inl (KeyError task_id)
      | Some t \<Rightarrow> Inr (AList.update task_id (f t) background_tasks))"

text \<open>
  The provider, as the answers to the three kinds of request: the upload (the
  \<^verbatim>\<open>audio_url\<close>), the submission (the \<^verbatim>\<open>result_url\<close>, if any), and the \<open>i\<close>-th poll.
  \<open>Inl\<close> is an exception of the request (\<^verbatim>\<open>raise_for_status\<close>, a missing key).
\<close>

record provider =
  p_upload :: "exn + string"
  p_submit :: "exn + string option"
  p_poll :: "nat \<Rightarrow> exn + response"

text \<open>
  The \<^verbatim>\<open>while True\<close> loop, with fuel: \<open>None\<close> when the loop is still polling after
  \<open>fuel\<close> answers. The result is the registry and what the loop returned or raised.
\<close>

fun poll_loop :: "provider \<Rightarrow> string \<Rightarrow> nat \<Rightarrow> nat \<Rightarrow> registry \<Rightarrow> (registry \<times> (exn + pyval)) option" where
  "poll_loop p task_id 0 i background_tasks = None"
| "poll_loop p task_id (Suc fuel) i background_tasks =
     (case p_poll p i of
        Inl e \<Rightarrow> Some (background_tasks, Inl e)
      | Inr data \<Rightarrow>
          (case d_status data of
             None \<Rightarrow> Some (background_tasks, Inl (KeyError ''status''))
           | Some status \<Rightarrow>
               (case update_task background_tasks task_id
                       (\<lambda>t. t\<lparr>t_message := ''Transcription status: '' @ status\<rparr>) of
                  Inl e \<Rightarrow> Some (background_tasks, Inl e)
                | Inr tasks \<Rightarrow>
                    (case poll_step data status of
                       Return v \<Rightarrow> Some (tasks, Inr v)
                     | Raise e \<Rightarrow> Some (tasks, Inl e)
                     | Continue \<Rightarrow> poll_loop p task_id fuel (Suc i) tasks))))"

text \<open>
  \<^verbatim>\<open>transcribe_with_gladia\<close>: every exception of the body is raised again as a
  \<^verbatim>\<open>RuntimeError\<close> whose message starts with \<^verbatim>\<open>Transcription error: \<close>.
\<close>

definition transcription_error :: "exn \<Rightarrow> exn" where
  "transcription_error e = RuntimeError (''Transcription error: '' @ str_exn e)"

definition transcribe_with_gladia ::
  "provider \<Rightarrow> nat \<Rightarrow> string \<Rightarrow> registry \<Rightarrow> (registry \<times> (exn + pyval)) option" where
  "transcribe_with_gladia p fuel task_id background_tasks =
     (case p_upload p of
        Inl e \<Rightarrow> Some (background_tasks, Inl (transcription_error e))
      | Inr audio_url \<Rightarrow>
          (case p_submit p of
             Inl e \<Rightarrow> Some (background_tasks, Inl (transcription_error e))
           | Inr result_url \<Rightarrow>
               if result_url = None \<or> result_url = Some []
               then Some (background_tasks,
                          Inl (transcription_error (RuntimeError ''No result_url in response'')))
               else (case poll_loop p task_id fuel 0 background_tasks of
                       None \<Rightarrow> None
                     | Some (tasks, Inl e) \<Rightarrow> Some (tasks, Inl (transcription_error e))
                     | Some (tasks, Inr v) \<Rightarrow> Some (tasks, Inr v))))"








text \<open>An answer with status \<^verbatim>\<open>done\<close> and the given result.\<close>

definition done_response :: "result field \<Rightarrow> response" where
  "done_response r = \<lparr>d_status = Some ''done'', d_result = r, d_error_code = None\<rparr>"

definition nested :: "transcription \<Rightarrow> result field" where
  "nested t = Present \<lparr>r_transcription = Some t, r_utterances = None,
                        r_full_transcript = None, r_segments = None\<rparr>"


subsection \<open>Starting a transcription\<close>

text \<open>
  The dictionary \<^verbatim>\<open>target_episode\<close>, which \<^verbatim>\<open>start_transcription\<close> builds with its four
  keys and passes to the job as \<^verbatim>\<open>episode_data\<close>; the defaults of the job's
  \<^verbatim>\<open>episode_data.get\<close> are never taken.
\<close>

record episode_data =
  ed_id :: string
  ed_podcast_name :: string
  ed_title :: string
  ed_audio_url :: string

text \<open>
  The state the handlers and the jobs share: the Task Registry, the file of the Status
  Store, and the jobs handed to a thread that have not run yet.
\<close>

record state =
  st_tasks :: registry
  st_status_file :: status_file
  st_threads :: "(episode_data \<times> string) list"

text \<open>The two loops of \<^verbatim>\<open>start_transcription\<close> that look the episode up.\<close>

fun find_entry :: "externals \<Rightarrow> feed \<Rightarrow> string \<Rightarrow> entry list \<Rightarrow> episode_data option" where
  "find_entry ext feed episode_id [] = None"
| "find_entry ext feed episode_id (entry # rest) =
     (let audio_url = find_audio (e_enclosures entry)
      in if no_audio audio_url then find_entry ext feed episode_id rest
         else if episode_id_start_transcription ext feed entry = episode_id
         then Some \<lparr>ed_id = episode_id, ed_podcast_name = f_name feed,
                     ed_title = entry_title entry, ed_audio_url = the audio_url\<rparr>
         else find_entry ext feed episode_id rest)"

fun find_episode :: "externals \<Rightarrow> string \<Rightarrow> feed list \<Rightarrow> episode_data option" where
  "find_episode ext episode_id [] = None"
| "find_episode ext episode_id (feed # rest) =
     (let feed_data = feedparser_parse ext (f_rss feed)
      in if entries feed_data = [] then find_episode ext episode_id rest
         else (case find_entry ext feed episode_id (entries feed_data) of
                 Some target_episode \<Rightarrow> Some target_episode
               | None \<Rightarrow> find_episode ext episode_id rest))"

text \<open>
  \<^verbatim>\<open>POST /transcribe/{episode_id}\<close>, with the two clocks it reads:
  \<^verbatim>\<open>int(time.time())\<close> and \<^verbatim>\<open>datetime.now()\<close>. The result is the new state and the
  response: an exception, or the task id and the message.
\<close>

definition start_transcription ::
  "externals \<Rightarrow> int \<Rightarrow> datetime \<Rightarrow> string \<Rightarrow> state \<Rightarrow> state \<times> (exn + string \<times> string)" where
  "start_transcription ext time_time now episode_id s =
     (case find_episode ext episode_id (feeds_json ext) of
        None \<Rightarrow> (s, Inl (HTTPException 404 ''Episode not found''))
      | Some target_episode \<Rightarrow>
          (case load_status (st_status_file s) of
             Inl e \<Rightarrow> (s, Inl e)
           | Inr status \<Rightarrow>
               if (case status episode_id of
                     Some r \<Rightarrow> sr_status r = ''completed''
                   | None \<Rightarrow> False)
               then (s, Inl (HTTPException 400 ''Episode already transcribed''))
               else
                 (let task_id = ''transcribe_'' @ episode_id @ ''_'' @ str_int time_time
                  in (s\<lparr>st_tasks := AList.update task_id
                                      \<lparr>t_type = ''transcribe'', t_status = ''pending'',
                                       t_message = ''Starting...'',
                                       t_episode_title = ed_title target_episode,
                                       t_created_at = now\<rparr> (st_tasks s),
                        st_threads := st_threads s @ [(target_episode, task_id)]\<rparr>,
                      Inr (task_id, ''Transcription task started'')))))"



subsection \<open>The transcription job\<close>

text \<open>
  What the job meets outside the program: whether \<^verbatim>\<open>os.makedirs\<close> raises, what
  \<^verbatim>\<open>download_audio\<close> returns or raises, the provider, what creating and opening the
  transcript file returns (the path) or raises, and the clock.
\<close>

record job_io =
  io_makedirs :: "exn option"
  io_download :: "exn + string"
  io_provider :: provider
  io_save_transcript :: "exn + string"
  io_now :: datetime

text \<open>\<^verbatim>\<open>save_transcript\<close>: \<^verbatim>\<open>f.write\<close> raises on a value that is not a string.\<close>

definition save_transcript :: "job_io \<Rightarrow> pyval \<Rightarrow> exn + string" where
  "save_transcript io transcript_text =
     (case io_save_transcript io of
        Inl e \<Rightarrow> Inl e
      | Inr file_path \<Rightarrow>
          (case transcript_text of
             PyStr s \<Rightarrow> Inr file_path
           | _ \<Rightarrow> Inl (TypeError ''write() argument must be str'')))"

definition completed_record :: "job_io \<Rightarrow> episode_data \<Rightarrow> string \<Rightarrow> status_record" where
  "completed_record io episode_data transcript_path =
     \<lparr>sr_status = ''completed'', sr_transcript_path = Some transcript_path,
      sr_completed_at = Some (io_now io), sr_error = None, sr_failed_at = None,
      sr_podcast_name = ed_podcast_name episode_data,
      sr_episode_title = ed_title episode_data\<rparr>"

definition error_record :: "job_io \<Rightarrow> episode_data \<Rightarrow> exn \<Rightarrow> status_record" where
  "error_record io episode_data e =
     \<lparr>sr_status = ''error'', sr_transcript_path = None, sr_completed_at = None,
      sr_error = Some (str_exn e), sr_failed_at = Some (io_now io),
      sr_podcast_name = ed_podcast_name episode_data,
      sr_episode_title = ed_title episode_data\<rparr>"

text \<open>
  The \<^verbatim>\<open>try\<close> block of \<^verbatim>\<open>transcribe_episode\<close>: the registry and the file as the block
  leaves them, and the path it returns or the exception it raises; \<open>None\<close> when the
  provider's loop is still polling after \<open>fuel\<close> answers.
\<close>

definition transcribe_episode_try ::
  "job_io \<Rightarrow> nat \<Rightarrow> episode_data \<Rightarrow> string \<Rightarrow> registry \<Rightarrow> status_file
     \<Rightarrow> ((registry \<times> status_file) \<times> (exn + string)) option" where
  "transcribe_episode_try io fuel episode_data task_id tasks0 file =
     (case update_task tasks0 task_id (\<lambda>t. t\<lparr>t_status := ''running''\<rparr>) of
        Inl e \<Rightarrow> Some ((tasks0, file), Inl e)
      | Inr tasks1 \<Rightarrow>
     (case update_task tasks1 task_id (\<lambda>t. t\<lparr>t_message := ''Starting transcription...''\<rparr>) of
        Inl e \<Rightarrow> Some ((tasks1, file), Inl e)
      | Inr tasks2 \<Rightarrow>
     if ed_audio_url episode_data = []
     then Some ((tasks2, file), Inl (ValueError ''No audio URL provided''))
     else
     (case io_makedirs io of
        Some e \<Rightarrow> Some ((tasks2, file), Inl e)
      | None \<Rightarrow>
     (case update_task tasks2 task_id (\<lambda>t. t\<lparr>t_message := ''Downloading audio...''\<rparr>) of
        Inl e \<Rightarrow> Some ((tasks2, file), Inl e)
      | Inr tasks3 \<Rightarrow>
     (case io_download io of
        Inl e \<Rightarrow> Some ((tasks3, file), Inl e)
      | Inr audio_path \<Rightarrow>
     (case update_task tasks3 task_id (\<lambda>t. t\<lparr>t_message := ''Transcribing audio...''\<rparr>) of
        Inl e \<Rightarrow> Some ((tasks3, file), Inl e)
      | Inr tasks4 \<Rightarrow>
     (case transcribe_with_gladia (io_provider io) fuel task_id tasks4 of
        None \<Rightarrow> None
      | Some (tasks5, Inl e) \<Rightarrow> Some ((tasks5, file), Inl e)
      | Some (tasks5, Inr transcript) \<Rightarrow>
     (case save_transcript io transcript of
        Inl e \<Rightarrow> Some ((tasks5, file), Inl e)
      | Inr transcript_path \<Rightarrow>
     (case load_status file of
        Inl e \<Rightarrow> Some ((tasks5, file), Inl e)
      | Inr status \<Rightarrow>
     (let file' = save_status file
            (status(ed_id episode_data \<mapsto> completed_record io episode_data transcript_path))
      in
     (case update_task tasks5 task_id (\<lambda>t. t\<lparr>t_status := ''completed''\<rparr>) of
        Inl e \<Rightarrow> Some ((tasks5, file'), Inl e)
      | Inr tasks6 \<Rightarrow>
     (case update_task tasks6 task_id
             (\<lambda>t. t\<lparr>t_message := ''Transcription complete: '' @ transcript_path\<rparr>) of
        Inl e \<Rightarrow> Some ((tasks6, file'), Inl e)
      | Inr tasks7 \<Rightarrow> Some ((tasks7, file'), Inr transcript_path)))))))))))))"

text \<open>
  What the job ends with: it returns (the path, or \<^verbatim>\<open>None\<close> from the handler), or an
  exception leaves \<^verbatim>\<open>transcribe_episode\<close>.
\<close>

datatype job_result = Returned "string option" | Propagated exn

text \<open>The \<^verbatim>\<open>except Exception as e\<close> block.\<close>

definition transcribe_episode_except ::
  "job_io \<Rightarrow> episode_data \<Rightarrow> string \<Rightarrow> exn \<Rightarrow> registry \<Rightarrow> status_file
     \<Rightarrow> (registry \<times> status_file) \<times> job_result" where
  "transcribe_episode_except io episode_data task_id e tasks0 file =
     (case update_task tasks0 task_id (\<lambda>t. t\<lparr>t_status := ''error''\<rparr>) of
        Inl e' \<Rightarrow> ((tasks0, file), Propagated e')
      | Inr tasks1 \<Rightarrow>
     (case update_task tasks1 task_id (\<lambda>t. t\<lparr>t_message := ''Error: '' @ str_exn e\<rparr>) of
        Inl e' \<Rightarrow> ((tasks1, file), Propagated e')
      | Inr tasks2 \<Rightarrow>
     (case load_status file of
        Inl e' \<Rightarrow> ((tasks2, file), Propagated e')
      | Inr status \<Rightarrow>
          ((tasks2, save_status file
                      (status(ed_id episode_data \<mapsto> error_record io episode_data e))),
           Returned None))))"

definition transcribe_episode ::
  "job_io \<Rightarrow> nat \<Rightarrow> episode_data \<Rightarrow> string \<Rightarrow> registry \<Rightarrow> status_file
     \<Rightarrow> ((registry \<times> status_file) \<times> job_result) option" where
  "transcribe_episode io fuel episode_data task_id tasks file =
     (case transcribe_episode_try io fuel episode_data task_id tasks file of
        None \<Rightarrow> None
      | Some (s, Inr transcript_path) \<Rightarrow> Some (s, Returned (Some transcript_path))
      | Some ((tasks', file'), Inl e) \<Rightarrow>
          Some (transcribe_episode_except io episode_data task_id e tasks' file'))"

subsection \<open>The handlers that only read, and the steps of the program\<close>

definition get_task_status :: "registry \<Rightarrow> string \<Rightarrow> exn + task_record" where
  "get_task_status tasks task_id =
     (case map_of tasks task_id of
        None \<Rightarrow> Inl (HTTPException 404 ''Task not found'')
      | Some t \<Rightarrow> Inr t)"

definition get_all_status :: "status_file \<Rightarrow> exn + status_map" where
  "get_all_status file = load_status file"

text \<open>\<^verbatim>\<open>GET /transcript/{episode_id}\<close>, with the transcript files as a map from paths.\<close>

definition get_transcript ::
  "(string \<rightharpoonup> string) \<Rightarrow> status_file \<Rightarrow> string \<Rightarrow> exn + status_record \<times> string" where
  "get_transcript files file episode_id =
     (case load_status file of
        Inl e \<Rightarrow> Inl e
      | Inr status \<Rightarrow>
          (case status episode_id of
             None \<Rightarrow> Inl (HTTPException 404 ''Episode not found'')
           | Some episode_status \<Rightarrow>
               if sr_status episode_status \<noteq> ''completed''
               then Inl (HTTPException 400 ''Episode not yet transcribed'')
               else (case sr_transcript_path episode_status of
                       None \<Rightarrow> Inl (HTTPException 404 ''Transcript file not found'')
                     | Some transcript_path \<Rightarrow>
                         (case files transcript_path of
                            None \<Rightarrow> Inl (HTTPException 404 ''Transcript file not found'')
                          | Some transcript \<Rightarrow> Inr (episode_status, transcript)))))"

text \<open>
  One step of the program: a request served by a handler, or a job run by its thread (a
  job is one step; the interleaving of a job with other steps is not modelled). The
  handlers that only read leave the state as it is.
\<close>

inductive step :: "externals \<Rightarrow> state \<Rightarrow> state \<Rightarrow> bool" for ext :: externals where
  step_get_episodes:
    "step ext s (s\<lparr>st_tasks := fst (get_episodes ext now_local now_utc (st_tasks s)
                                      (st_status_file s) limit days)\<rparr>)"
| step_start_transcription:
    "step ext s (fst (start_transcription ext time_time now episode_id s))"
| step_job:
    "(episode_data, task_id) \<in> set (st_threads s) \<Longrightarrow>
     transcribe_episode io fuel episode_data task_id (st_tasks s) (st_status_file s)
       = Some ((tasks, file), r) \<Longrightarrow>
     step ext s \<lparr>st_tasks = tasks, st_status_file = file,
                 st_threads = remove1 (episode_data, task_id) (st_threads s)\<rparr>"
| step_read: "step ext s s"

text \<open>
  The specification's words for the invariant of the Status Store: every record of the
  file has status \<^verbatim>\<open>completed\<close> or \<^verbatim>\<open>error\<close>.
\<close>

definition terminal_store :: "status_file \<Rightarrow> bool" where
  "terminal_store file =
     (case file of
        Document status \<Rightarrow> (\<forall>r\<in>ran status. terminal_status (sr_status r))
      | _ \<Rightarrow> True)"

subsection \<open>Sample inputs\<close>

text \<open>
  Concrete inputs for the examples below: one feed, and entries with an audio enclosure
  that differ in their parsed publication date. The examples take a constant function for
  the digest.
\<close>

definition sample_now :: datetime where
  "sample_now = seconds 63800000000"

definition sample_feed :: feed where
  "sample_feed = \<lparr>f_name = ''Show'', f_rss = ''https://example.com/feed.xml''\<rparr>"

definition sample_entry :: "string \<Rightarrow> datetime field \<Rightarrow> entry" where
  "sample_entry ident parsed =
     \<lparr>e_id = Some ident, e_title = Some ''Title'', e_published = None,
      e_published_parsed = parsed,
      e_enclosures = [\<lparr>enc_type = ''audio/mpeg'', enc_href = ''https://example.com/a.mp3''\<rparr>]\<rparr>"

definition sample_recent :: entry where
  "sample_recent = sample_entry ''recent'' (Present (sample_now - seconds 86400))"

definition sample_old :: entry where
  "sample_old = sample_entry ''old'' (Present (sample_now - 400 * seconds 86400))"

definition sample_undated :: entry where
  "sample_undated = sample_entry ''undated'' Missing"

definition sample_ext :: "entry list \<Rightarrow> externals" where
  "sample_ext es =
     \<lparr>md5_hexdigest = (\<lambda>s. ''d41d8cd98f00b204e9800998ecf8427e''),
      feedparser_parse = (\<lambda>url. \<lparr>bozo = False, entries = es\<rparr>),
      feeds_json = [sample_feed]\<rparr>"


definition sample_completed :: status_record where
  "sample_completed =
     \<lparr>sr_status = ''completed'', sr_transcript_path = Some ''episodes/Show_Title/transcript.txt'',
      sr_completed_at = Some sample_now, sr_error = None, sr_failed_at = None,
      sr_podcast_name = ''Show'', sr_episode_title = ''Title''\<rparr>"

definition sample_episode :: episode_data where
  "sample_episode = \<lparr>ed_id = ''d41d8cd9_recent'', ed_podcast_name = ''Show'',
     ed_title = ''Title'', ed_audio_url = ''https://example.com/a.mp3''\<rparr>"

definition sample_task :: task_record where
  "sample_task = \<lparr>t_type = ''transcribe'', t_status = ''pending'', t_message = ''Starting...'',
     t_episode_title = ''Title'', t_created_at = sample_now\<rparr>"

text \<open>A job whose download fails.\<close>

definition sample_io :: job_io where
  "sample_io =
     \<lparr>io_makedirs = None,
      io_download = Inl (OSError ''Connection refused''),
      io_provider = \<lparr>p_upload = Inr ''https://api.example.com/audio'',
                      p_submit = Inr (Some ''https://api.example.com/result''),
                      p_poll = (\<lambda>i. Inr (done_response (nested
                                  (TranscriptionDict None (Some ''hi there'') None))))\<rparr>,
      io_save_transcript = Inr ''episodes/Show_Title/transcript.txt'',
      io_now = sample_now\<rparr>"

definition sample_failed_task :: task_record where
  "sample_failed_task = sample_task\<lparr>t_status := ''error'',
     t_message := ''Error: Connection refused''\<rparr>"

section \<open>Properties of the Task Registry\<close>

lemma tasks_to_remove_set:
  "set (tasks_to_remove now bt) = {k. \<exists>t. (k, t) \<in> set bt \<and> swept now t}"
  by (induction now bt rule: tasks_to_remove.induct)
     (auto simp: swept_def terminal_status_def)

lemma del_all_filter:
  "del_all ids bt = filter (\<lambda>p. fst p \<notin> set ids) bt"
proof (induction ids arbitrary: bt)
  case Nil
  show ?case by simp
next
  case (Cons k ks)
  have "AList.delete k bt = filter (\<lambda>p. fst p \<noteq> k) bt"
    by (induction bt) auto
  with Cons show ?case
    by (auto intro!: filter_cong)
qed

lemma distinct_fst_unique:
  assumes "distinct (map fst bt)" "(k, t) \<in> set bt" "(k, t') \<in> set bt"
  shows "t = t'"
  using assms by (meson eq_key_imp_eq_value)

section \<open>Properties of the feed aggregator\<close>


lemma episode_of_date [simp]:
  "ep_pub_date_parsed (episode_of ext status feed e a) = entry_pub_date_parsed e"
  by (simp add: episode_of_def Let_def)











lemmas sample_defs = sample_now_def sample_feed_def sample_entry_def sample_recent_def
  sample_old_def sample_undated_def sample_ext_def

lemmas feed_eval = get_episodes_def cleanup_old_tasks_def load_status_def cutoff_date_def
  datetime_max_def all_episodes_def feed_episodes_def py_sorted_reverse_def published_key_def
  pub_date_key_def no_audio_def startswith_def entry_pub_date_parsed_def seconds_def
  slice_to_def episode_of_def episode_id_get_episodes_def entry_title_def




text \<open>
  Claim C1 at a feed with a recent entry and an entry without a parsed date: both episodes
  are collected, the key of the second is \<^verbatim>\<open>None\<close> (the default of
  \<^verbatim>\<open>x.get('pub_date_parsed', '')\<close> is not taken, the key being present), and the sort
  of the handler raises \<^verbatim>\<open>TypeError\<close> outside every \<^verbatim>\<open>try\<close>.
\<close>

theorem get_episodes_mixed_dates_TypeError:
  "snd (get_episodes (sample_ext [sample_recent, sample_undated]) sample_now sample_now []
          NoFile 100 90)
     = Inl (TypeError ''< not supported between instances of NoneType and another type'')"
  by (simp add: feed_eval sample_defs)

text \<open>
  Claim C3. The id that \<^verbatim>\<open>GET /episodes\<close> derives is \<open>feed_hash\<close>, an underscore and
  \<open>episode_base\<close>, with \<open>feed_hash\<close> the first 8 characters of the digest of the feed URL
  and \<open>episode_base\<close> the entry's identifier when it is present and not empty, otherwise
  the first 12 characters of the digest of the title (of \<^verbatim>\<open>Unknown Title\<close> when the entry
  has no title). \<^verbatim>\<open>POST /transcribe\<close> derives the same id, and the id depends on the feed
  URL, the identifier and the title only.
\<close>

theorem episode_id_derivation:
  "episode_id_get_episodes ext feed entry = derive_id_spec (md5_hexdigest ext) (f_rss feed) entry
   \<and> episode_id_start_transcription ext feed entry = episode_id_get_episodes ext feed entry
   \<and> (f_rss feed' = f_rss feed \<and> e_id entry' = e_id entry \<and> e_title entry' = e_title entry
        \<longrightarrow> episode_id_get_episodes ext feed' entry' = episode_id_get_episodes ext feed entry)"
proof -
  have spec: "episode_id_get_episodes ext f e = derive_id_spec (md5_hexdigest ext) (f_rss f) e" for f e
  proof (cases "e_id e")
    case None
    then show ?thesis
      by (cases "e_title e")
         (simp_all add: episode_id_get_episodes_def derive_id_spec_def feed_hash_spec_def
            entry_title_def)
  next
    case (Some i)
    then show ?thesis
      by (cases i; cases "e_title e")
         (simp_all add: episode_id_get_episodes_def derive_id_spec_def feed_hash_spec_def
            entry_title_def)
  qed
  have same: "episode_id_start_transcription ext feed entry = episode_id_get_episodes ext feed entry"
    by (simp add: episode_id_start_transcription_def episode_id_get_episodes_def)
  show ?thesis
    using same by (simp add: spec derive_id_spec_def)
qed

text \<open>The derivation at an entry with an identifier, and at the same entry without one.\<close>

theorem episode_id_derivation_witness:
  "episode_id_get_episodes (sample_ext []) sample_feed sample_recent = ''d41d8cd9_recent''
   \<and> episode_id_start_transcription (sample_ext []) sample_feed
        (sample_recent\<lparr>e_id := None\<rparr>) = ''d41d8cd9_d41d8cd98f00''"
  using episode_id_derivation [of "sample_ext []" sample_feed sample_recent]
    episode_id_derivation [of "sample_ext []" sample_feed "sample_recent\<lparr>e_id := None\<rparr>"]
  by (simp add: derive_id_spec_def feed_hash_spec_def sample_defs)

text \<open>
  Claim C9. The sweep keeps, in their order and unchanged, exactly the records that are
  not (terminal and created more than one hour before the current time); in particular a
  record whose status is pending or running stays whatever its age, and so does a terminal
  record inside the retention window. The registry is a Python dictionary, so its keys
  are distinct.
\<close>

theorem cleanup_old_tasks_sweep:
  assumes "distinct (map fst background_tasks)"
  shows "cleanup_old_tasks now background_tasks
           = filter (\<lambda>(task_id, t). \<not> swept now t) background_tasks
       \<and> (\<forall>task_id t. (task_id, t) \<in> set background_tasks \<longrightarrow>
             (t_status t = ''pending'' \<or> t_status t = ''running'' \<longrightarrow>
                (task_id, t) \<in> set (cleanup_old_tasks now background_tasks))
           \<and> ((task_id, t) \<in> set (cleanup_old_tasks now background_tasks)
                \<longleftrightarrow> \<not> (terminal_status (t_status t) \<and> now - t_created_at t > seconds 3600)))"
proof -
  have keep: "(fst p \<notin> set (tasks_to_remove now background_tasks)) = (\<not> swept now (snd p))"
    if "p \<in> set background_tasks" for p
  proof -
    obtain k t where p: "p = (k, t)" by (cases p)
    show ?thesis
      using that distinct_fst_unique [OF assms]
      unfolding p tasks_to_remove_set by auto
  qed
  have eq: "cleanup_old_tasks now background_tasks
              = filter (\<lambda>(task_id, t). \<not> swept now t) background_tasks"
    unfolding cleanup_old_tasks_def del_all_filter
    by (rule filter_cong) (auto simp: keep split: prod.splits)
  show ?thesis
    unfolding eq by (auto simp: swept_def terminal_status_def)
qed

theorem cleanup_old_tasks_sweep_witness:
  "distinct (map fst
     [(''a'', \<lparr>t_type = ''transcribe'', t_status = ''completed'', t_message = ''m'',
               t_episode_title = ''e'', t_created_at = 0\<rparr>),
      (''b'', \<lparr>t_type = ''transcribe'', t_status = ''running'', t_message = ''m'',
               t_episode_title = ''e'', t_created_at = 0\<rparr>),
      (''c'', \<lparr>t_type = ''transcribe'', t_status = ''error'', t_message = ''m'',
               t_episode_title = ''e'', t_created_at = seconds 9000\<rparr>)])
   \<and> cleanup_old_tasks (seconds 10000)
     [(''a'', \<lparr>t_type = ''transcribe'', t_status = ''completed'', t_message = ''m'',
               t_episode_title = ''e'', t_created_at = 0\<rparr>),
      (''b'', \<lparr>t_type = ''transcribe'', t_status = ''running'', t_message = ''m'',
               t_episode_title = ''e'', t_created_at = 0\<rparr>),
      (''c'', \<lparr>t_type = ''transcribe'', t_status = ''error'', t_message = ''m'',
               t_episode_title = ''e'', t_created_at = seconds 9000\<rparr>)]
   = [(''b'', \<lparr>t_type = ''transcribe'', t_status = ''running'', t_message = ''m'',
               t_episode_title = ''e'', t_created_at = 0\<rparr>),
      (''c'', \<lparr>t_type = ''transcribe'', t_status = ''error'', t_message = ''m'',
               t_episode_title = ''e'', t_created_at = seconds 9000\<rparr>)]"
proof -
  let ?bt = "[(''a'', \<lparr>t_type = ''transcribe'', t_status = ''completed'', t_message = ''m'',
               t_episode_title = ''e'', t_created_at = 0\<rparr>),
      (''b'', \<lparr>t_type = ''transcribe'', t_status = ''running'', t_message = ''m'',
               t_episode_title = ''e'', t_created_at = 0\<rparr>),
      (''c'', \<lparr>t_type = ''transcribe'', t_status = ''error'', t_message = ''m'',
               t_episode_title = ''e'', t_created_at = seconds 9000\<rparr>)]"
  have d: "distinct (map fst ?bt)" by simp
  from cleanup_old_tasks_sweep [OF d, of "seconds 10000"] d
  show ?thesis by (simp add: swept_def terminal_status_def seconds_def)
qed

section \<open>Properties of the transcript normalizer\<close>










lemma poll_loop_stuck:
  assumes "\<And>i. p_poll p i = Inr data" "d_status data = Some st" "poll_step data st = Continue"
    and "map_of bt task_id \<noteq> None"
  shows "poll_loop p task_id fuel i bt = None"
  using assms(4)
proof (induction fuel arbitrary: i bt)
  case 0
  show ?case by simp
next
  case (Suc fuel)
  from Suc.prems obtain t where t: "map_of bt task_id = Some t" by auto
  let ?bt = "AList.update task_id (t\<lparr>t_message := ''Transcription status: '' @ st\<rparr>) bt"
  have step: "poll_loop p task_id (Suc fuel) i bt = poll_loop p task_id fuel (Suc i) ?bt"
    by (simp add: assms(1,2,3) update_task_def t)
  have "map_of ?bt task_id \<noteq> None" by (simp add: update_conv')
  from Suc.IH [OF this] show ?case
    unfolding step .
qed

text \<open>
  Claim C5 at a \<^verbatim>\<open>done\<close> answer whose \<^verbatim>\<open>transcription\<close> is a dictionary with none of the
  three keys: the pass through the loop neither returns nor raises, and with a provider
  that goes on giving this answer the function is still polling after any number of
  answers.
\<close>

theorem empty_transcription_never_raises:
  "poll_step (done_response (nested (TranscriptionDict None None None))) ''done'' = Continue
   \<and> transcribe_with_gladia
        \<lparr>p_upload = Inr ''audio'', p_submit = Inr (Some ''result''),
         p_poll = (\<lambda>i. Inr (done_response (nested (TranscriptionDict None None None))))\<rparr>
        fuel ''task'' [(''task'', t)] = None"
proof -
  let ?data = "done_response (nested (TranscriptionDict None None None))"
  have c: "poll_step ?data ''done'' = Continue"
    by (simp add: poll_step_def done_branch_def done_response_def nested_def)
  have "poll_loop \<lparr>p_upload = Inr ''audio'', p_submit = Inr (Some ''result''),
         p_poll = (\<lambda>i. Inr ?data)\<rparr> ''task'' fuel 0 [(''task'', t)] = None"
    by (rule poll_loop_stuck [where data = ?data and st = "''done''"])
       (simp_all add: c, simp add: done_response_def)
  with c show ?thesis by (simp add: transcribe_with_gladia_def)
qed

section \<open>Properties of the handlers\<close>






section \<open>Properties of the transcription job and of the Status Store\<close>

lemma update_task_Inr:
  "update_task bt k f = Inr bt' \<Longrightarrow> \<exists>t. map_of bt k = Some t \<and> map_of bt' k = Some (f t)"
  by (auto simp: update_task_def update_conv' split: option.splits)

lemma update_task_Inl: "update_task bt k f = Inl e \<Longrightarrow> map_of bt k = None"
  by (auto simp: update_task_def split: option.splits)

lemma update_task_has: "update_task bt k f = Inr bt' \<Longrightarrow> map_of bt' k \<noteq> None"
  by (auto dest: update_task_Inr)

lemma poll_loop_has:
  "poll_loop p k fuel i bt = Some (bt', r) \<Longrightarrow> map_of bt k \<noteq> None \<Longrightarrow> map_of bt' k \<noteq> None"
proof (induction fuel arbitrary: i bt)
  case 0
  then show ?case by simp
next
  case (Suc fuel)
  show ?case
  proof (cases "p_poll p i")
    case (Inl e)
    with Suc.prems show ?thesis by simp
  next
    case (Inr data)
    show ?thesis
    proof (cases "d_status data")
      case None
      with Inr Suc.prems show ?thesis by simp
    next
      case (Some st)
      show ?thesis
      proof (cases "update_task bt k (\<lambda>t. t\<lparr>t_message := ''Transcription status: '' @ st\<rparr>)")
        case (Inl e)
        with Inr Some Suc.prems show ?thesis by simp
      next
        case u: (Inr tasks)
        note h = update_task_has [OF u]
        show ?thesis
        proof (cases "poll_step data st")
          case (Return v)
          with Inr Some u Suc.prems h show ?thesis by auto
        next
          case (Raise e)
          with Inr Some u Suc.prems h show ?thesis by auto
        next
          case Continue
          with Inr Some u Suc.prems have "poll_loop p k fuel (Suc i) tasks = Some (bt', r)" by simp
          from Suc.IH [OF this h] show ?thesis .
        qed
      qed
    qed
  qed
qed

lemma transcribe_with_gladia_has:
  "transcribe_with_gladia p fuel k bt = Some (bt', r) \<Longrightarrow> map_of bt k \<noteq> None
     \<Longrightarrow> map_of bt' k \<noteq> None"
  by (auto simp: transcribe_with_gladia_def split: sum.splits if_splits option.splits prod.splits
        dest: poll_loop_has)


lemma try_Inl:
  assumes "transcribe_episode_try io fuel ed k tasks file = Some ((tasks1, file1), Inl e)"
  shows "file1 = file \<and> (map_of tasks k \<noteq> None \<longrightarrow> map_of tasks1 k \<noteq> None)"
  using assms unfolding transcribe_episode_try_def Let_def
  by (auto split: sum.splits option.splits if_splits prod.splits
        dest!: update_task_has update_task_Inl dest: transcribe_with_gladia_has)

lemma try_Inr:
  assumes "transcribe_episode_try io fuel ed k tasks file = Some ((tasks1, file1), Inr path)"
  shows "\<exists>status t. load_status file = Inr status
           \<and> file1 = Document (status(ed_id ed \<mapsto> completed_record io ed path))
           \<and> map_of tasks1 k = Some t \<and> t_status t = ''completed''"
  using assms unfolding transcribe_episode_try_def Let_def save_status_def save_status_steps_def
  by (auto split: sum.splits option.splits if_splits prod.splits dest!: update_task_Inr)

lemma except_result:
  assumes "map_of tasks k \<noteq> None"
  shows "\<exists>tasks2 t. map_of tasks2 k = Some t \<and> t_status t = ''error''
           \<and> t_message t = ''Error: '' @ str_exn e
           \<and> transcribe_episode_except io ed k e tasks sf =
               (case load_status sf of
                  Inl e' \<Rightarrow> ((tasks2, sf), Propagated e')
                | Inr status \<Rightarrow>
                    ((tasks2, Document (status(ed_id ed \<mapsto> error_record io ed e))),
                     Returned None))"
proof -
  from assms obtain t where t: "map_of tasks k = Some t" by auto
  let ?t1 = "t\<lparr>t_status := ''error''\<rparr>"
  let ?tasks1 = "AList.update k ?t1 tasks"
  let ?t2 = "?t1\<lparr>t_message := ''Error: '' @ str_exn e\<rparr>"
  let ?tasks2 = "AList.update k ?t2 ?tasks1"
  have u1: "update_task tasks k (\<lambda>t. t\<lparr>t_status := ''error''\<rparr>) = Inr ?tasks1"
    by (simp add: update_task_def t)
  have u2: "update_task ?tasks1 k (\<lambda>t. t\<lparr>t_message := ''Error: '' @ str_exn e\<rparr>) = Inr ?tasks2"
    by (simp add: update_task_def update_conv')
  have "map_of ?tasks2 k = Some ?t2" by (simp add: update_conv')
  moreover have "transcribe_episode_except io ed k e tasks sf =
               (case load_status sf of
                  Inl e' \<Rightarrow> ((?tasks2, sf), Propagated e')
                | Inr status \<Rightarrow>
                    ((?tasks2, Document (status(ed_id ed \<mapsto> error_record io ed e))),
                     Returned None))"
    by (simp add: transcribe_episode_except_def update_task_def t update_conv' save_status_def
          save_status_steps_def split: sum.splits)
  ultimately show ?thesis by (intro exI [of _ ?tasks2] exI [of _ ?t2]) simp
qed

lemmas job_eval = transcribe_episode_def transcribe_episode_try_def transcribe_episode_except_def
  update_task_def sample_io_def sample_episode_def sample_task_def sample_failed_task_def
  load_status_def save_status_def save_status_steps_def error_record_def




text \<open>
  Claim C8, as amended. \<^verbatim>\<open>save_status\<close> writes the file in place. A save that runs to its
  end leaves the new mapping, whatever the file held, so of two saves one after the other
  the second wins. Before the last write of a save the file holds no JSON document, and a
  load then raises.
\<close>

theorem save_status_in_place:
  "load_status (save_status f status) = Inr status
   \<and> save_status (save_status f status) status' = Document status'
   \<and> last (save_status_steps f status) = Document status
   \<and> (\<forall>g\<in>set (butlast (save_status_steps f status)).
         load_status g = Inl (JSONDecodeError ''Expecting value''))"
  by (simp add: load_status_def save_status_def save_status_steps_def)

text \<open>The theorem at a save of the empty mapping over a file with one record.\<close>

theorem save_status_in_place_witness:
  "load_status (save_status (Document [''d41d8cd9_recent'' \<mapsto> sample_completed]) Map.empty)
     = Inr Map.empty
   \<and> list_all (\<lambda>g. load_status g = Inl (JSONDecodeError ''Expecting value''))
        (butlast (save_status_steps (Document [''d41d8cd9_recent'' \<mapsto> sample_completed])
           Map.empty))"
  using save_status_in_place [of "Document [''d41d8cd9_recent'' \<mapsto> sample_completed]" Map.empty]
  by (simp add: list_all_iff)

text \<open>
  Claim C8 as stated fails: a save interrupted after its \<^verbatim>\<open>open\<close> leaves a file from which
  a load yields neither the previous nor the new mapping.
\<close>

theorem save_status_interrupted:
  "hd (save_status_steps (Document [''d41d8cd9_recent'' \<mapsto> sample_completed]) Map.empty)
     = Unparseable
   \<and> load_status (hd (save_status_steps (Document [''d41d8cd9_recent'' \<mapsto> sample_completed])
        Map.empty)) = Inl (JSONDecodeError ''Expecting value'')"
  by (simp add: save_status_steps_def load_status_def)

lemma job_write:
  assumes "transcribe_episode io fuel ed k tasks file = Some ((tasks', file'), r)"
  shows "file' = file
       \<or> (\<exists>status rec t. load_status file = Inr status
             \<and> file' = Document (status(ed_id ed \<mapsto> rec))
             \<and> terminal_status (sr_status rec)
             \<and> map_of tasks' k = Some t \<and> terminal_status (t_status t))"
proof (cases "transcribe_episode_try io fuel ed k tasks file")
  case None
  with assms show ?thesis by (simp add: transcribe_episode_def)
next
  case (Some a)
  obtain tasks1 file1 res where a: "a = ((tasks1, file1), res)" by (cases a) auto
  show ?thesis
  proof (cases res)
    case (Inr path)
    with Some a assms have "tasks' = tasks1" "file' = file1"
      by (simp_all add: transcribe_episode_def)
    moreover from try_Inr [OF Some [unfolded a Inr]] obtain status t where
      "load_status file = Inr status"
      "file1 = Document (status(ed_id ed \<mapsto> completed_record io ed path))"
      "map_of tasks1 k = Some t" "t_status t = ''completed''"
      by blast
    moreover have "terminal_status (sr_status (completed_record io ed path))"
      by (simp add: completed_record_def terminal_status_def)
    ultimately show ?thesis
      by (intro disjI2 exI [of _ "completed_record io ed path"] exI [of _ status] exI [of _ t])
         (simp add: terminal_status_def)
  next
    case (Inl e)
    note tr = Some [unfolded a Inl]
    from try_Inl [OF tr] have f: "file1 = file"
      and h: "map_of tasks k \<noteq> None \<longrightarrow> map_of tasks1 k \<noteq> None" by auto
    from assms tr f have x: "transcribe_episode_except io ed k e tasks1 file = ((tasks', file'), r)"
      by (simp add: transcribe_episode_def)
    show ?thesis
    proof (cases "map_of tasks1 k")
      case None
      with x show ?thesis
        by (simp add: transcribe_episode_except_def update_task_def)
    next
      case (Some t1)
      then have "map_of tasks1 k \<noteq> None" by simp
      from except_result [OF this, where e = e and io = io and ed = ed and sf = "file"]
      obtain tasks2 t where t: "map_of tasks2 k = Some t" "t_status t = ''error''"
        and y: "transcribe_episode_except io ed k e tasks1 file =
               (case load_status file of
                  Inl e' \<Rightarrow> ((tasks2, file), Propagated e')
                | Inr status \<Rightarrow>
                    ((tasks2, Document (status(ed_id ed \<mapsto> error_record io ed e))),
                     Returned None))"
        by blast
      show ?thesis
      proof (cases "load_status file")
        case (Inl e')
        with x y show ?thesis by simp
      next
        case (Inr status)
        with x y have "tasks' = tasks2"
          "file' = Document (status(ed_id ed \<mapsto> error_record io ed e))" by simp_all
        moreover have "terminal_status (sr_status (error_record io ed e))"
          by (simp add: error_record_def terminal_status_def)
        ultimately show ?thesis using Inr t
          by (intro disjI2 exI [of _ "error_record io ed e"] exI [of _ status] exI [of _ t])
             (simp add: terminal_status_def)
      qed
    qed
  qed
qed

lemma step_store:
  assumes "step ext s s'"
  shows "st_status_file s' = st_status_file s
       \<or> (\<exists>episode_data task_id status rec t.
             (episode_data, task_id) \<in> set (st_threads s)
           \<and> load_status (st_status_file s) = Inr status
           \<and> st_status_file s' = Document (status(ed_id episode_data \<mapsto> rec))
           \<and> terminal_status (sr_status rec)
           \<and> map_of (st_tasks s') task_id = Some t \<and> terminal_status (t_status t))"
  using assms
proof cases
  case (step_get_episodes now_local now_utc limit days)
  then show ?thesis by simp
next
  case (step_start_transcription time_time now episode_id)
  then show ?thesis
    by (auto simp: start_transcription_def Let_def split: option.splits sum.splits if_splits)
next
  case (step_job episode_data task_id io fuel tasks sf r)
  from job_write [OF step_job(3)] step_job(1,2) show ?thesis
    by auto
next
  case step_read
  then show ?thesis by simp
qed

lemma terminal_store_step:
  assumes "step ext s s'" "terminal_store (st_status_file s)"
  shows "terminal_store (st_status_file s')"
proof -
  from step_store [OF assms(1)] show ?thesis
  proof
    assume "st_status_file s' = st_status_file s"
    with assms(2) show ?thesis by simp
  next
    assume "\<exists>episode_data task_id status rec t.
             (episode_data, task_id) \<in> set (st_threads s)
           \<and> load_status (st_status_file s) = Inr status
           \<and> st_status_file s' = Document (status(ed_id episode_data \<mapsto> rec))
           \<and> terminal_status (sr_status rec)
           \<and> map_of (st_tasks s') task_id = Some t \<and> terminal_status (t_status t)"
    then obtain ed :: episode_data and status rec where l: "load_status (st_status_file s) = Inr status"
      and f: "st_status_file s' = Document (status(ed_id ed \<mapsto> rec))"
      and r: "terminal_status (sr_status rec)"
      by blast
    from l assms(2) have "\<forall>r\<in>ran status. terminal_status (sr_status r)"
      by (cases "st_status_file s") (auto simp: load_status_def terminal_store_def)
    with r have "\<forall>r\<in>ran (status(ed_id ed \<mapsto> rec)). terminal_status (sr_status r)"
      by (auto simp: ran_def split: if_splits)
    with f show ?thesis by (simp add: terminal_store_def)
  qed
qed

text \<open>
  Claim C10. A step of the program leaves the file of the Status Store as it is, or it is
  a job that replaces it by the loaded mapping with one record set, for the episode of the
  job: the record has status \<^verbatim>\<open>completed\<close> or \<^verbatim>\<open>error\<close>, and the Task Record of the job has
  reached a terminal status. So a file whose records all have a terminal status keeps the
  property along every run of the program.
\<close>

theorem status_store_terminal:
  "(step ext s s' \<longrightarrow>
      st_status_file s' = st_status_file s
    \<or> (\<exists>episode_data task_id status rec t.
             (episode_data, task_id) \<in> set (st_threads s)
           \<and> load_status (st_status_file s) = Inr status
           \<and> st_status_file s' = Document (status(ed_id episode_data \<mapsto> rec))
           \<and> terminal_status (sr_status rec)
           \<and> map_of (st_tasks s') task_id = Some t \<and> terminal_status (t_status t)))
   \<and> ((step ext)\<^sup>*\<^sup>* s0 s \<and> terminal_store (st_status_file s0)
        \<longrightarrow> terminal_store (st_status_file s))"
proof (intro conjI impI)
  assume "step ext s s'"
  then show "st_status_file s' = st_status_file s
    \<or> (\<exists>episode_data task_id status rec t.
             (episode_data, task_id) \<in> set (st_threads s)
           \<and> load_status (st_status_file s) = Inr status
           \<and> st_status_file s' = Document (status(ed_id episode_data \<mapsto> rec))
           \<and> terminal_status (sr_status rec)
           \<and> map_of (st_tasks s') task_id = Some t \<and> terminal_status (t_status t))"
    by (rule step_store)
next
  assume "(step ext)\<^sup>*\<^sup>* s0 s \<and> terminal_store (st_status_file s0)"
  then have "(step ext)\<^sup>*\<^sup>* s0 s" "terminal_store (st_status_file s0)" by auto
  then show "terminal_store (st_status_file s)"
    by (induction rule: rtranclp_induct) (auto intro: terminal_store_step)
qed

text \<open>The theorem at the step of the job whose download fails.\<close>

theorem status_store_terminal_witness:
  "step (sample_ext [])
      \<lparr>st_tasks = [(''task'', sample_task)], st_status_file = NoFile,
       st_threads = [(sample_episode, ''task'')]\<rparr>
      \<lparr>st_tasks = [(''task'', sample_failed_task)],
       st_status_file = Document [''d41d8cd9_recent'' \<mapsto>
          error_record sample_io sample_episode (OSError ''Connection refused'')],
       st_threads = []\<rparr>
   \<and> terminal_store (Document [''d41d8cd9_recent'' \<mapsto>
          error_record sample_io sample_episode (OSError ''Connection refused'')])"
proof -
  let ?s = "\<lparr>st_tasks = [(''task'', sample_task)], st_status_file = NoFile,
       st_threads = [(sample_episode, ''task'')]\<rparr>"
  let ?s' = "\<lparr>st_tasks = [(''task'', sample_failed_task)],
       st_status_file = Document [''d41d8cd9_recent'' \<mapsto>
          error_record sample_io sample_episode (OSError ''Connection refused'')],
       st_threads = []\<rparr>"
  have j: "transcribe_episode sample_io 0 sample_episode ''task'' (st_tasks ?s) (st_status_file ?s)
     = Some (([(''task'', sample_failed_task)],
              Document [''d41d8cd9_recent'' \<mapsto>
                error_record sample_io sample_episode (OSError ''Connection refused'')]),
             Returned None)"
    by (simp add: job_eval)
  have m: "(sample_episode, ''task'') \<in> set (st_threads ?s)" by simp
  from step_job [OF m j, of "sample_ext []"] have st: "step (sample_ext []) ?s ?s'" by simp
  have "terminal_store (st_status_file ?s)" by (simp add: terminal_store_def)
  moreover from st have "(step (sample_ext []))\<^sup>*\<^sup>* ?s ?s'" by (rule r_into_rtranclp)
  moreover have "(step (sample_ext []))\<^sup>*\<^sup>* ?s ?s' \<and> terminal_store (st_status_file ?s)
      \<longrightarrow> terminal_store (st_status_file ?s')"
    by (rule conjunct2 [OF status_store_terminal])
  ultimately have "terminal_store (st_status_file ?s')" by blast
  with st show ?thesis by simp
qed

end
